theory Spec2Isabelle
  imports Main "HOL-Library.Log_Nat"
begin

section \<open>JavaScript numbers\<close>

text \<open>
  The forms compute with JavaScript numbers, which are IEEE 754 binary64 values. A number
  is \<open>NaN\<close>, an infinity, or a finite value, kept here as the rational it denotes. The two
  zeros are one value \<open>Fin 0\<close>: they compare equal in JavaScript, both are falsy, and the
  forms never divide by a total or inspect its sign bit.
\<close>

datatype jsnum = NaN | PInf | NInf | Fin rat

text \<open>
  The binary exponent of a positive rational \<open>r\<close>: the \<open>e\<close> with \<open>2^e \<le> r < 2^(e+1)\<close>.
\<close>

definition binexp :: "rat \<Rightarrow> int" where
  "binexp r = (if 1 \<le> r then bitlen \<lfloor>r\<rfloor> - 1 else - bitlen (\<lceil>1 / r\<rceil> - 1))"

definition roundTiesToEven :: "rat \<Rightarrow> int" where
  "roundTiesToEven x =
     (let n = \<lfloor>x\<rfloor>; d = x - of_int n
      in if d < 1 / 2 then n
         else if 1 / 2 < d then n + 1
         else if even n then n else n + 1)"

text \<open>
  The spacing of binary64 values around \<open>r\<close>: 53 significant bits, and the fixed spacing
  \<open>2^-1074\<close> of the subnormal range below \<open>2^-1022\<close>.
\<close>

definition quantum :: "rat \<Rightarrow> rat" where
  "quantum r = 2 powi (max (binexp \<bar>r\<bar>) (- 1022) - 52)"

text \<open>
  Rounding of an exact result to binary64, to nearest with ties to even; a magnitude that
  rounds to \<open>2^1024\<close> overflows to an infinity. Every arithmetic operation and every numeric
  literal of the source goes through it.
\<close>

definition round64 :: "rat \<Rightarrow> jsnum" where
  "round64 r =
     (if r = 0 then Fin 0
      else let q = quantum r;
               v = of_int (roundTiesToEven (\<bar>r\<bar> / q)) * q
           in if 2 powi 1024 \<le> v then (if r < 0 then NInf else PInf)
              else Fin (if r < 0 then - v else v))"

text \<open>The operators \<open>+\<close> and \<open>*\<close> on numbers.\<close>

fun fadd :: "jsnum \<Rightarrow> jsnum \<Rightarrow> jsnum" where
  "fadd NaN _ = NaN"
| "fadd _ NaN = NaN"
| "fadd PInf NInf = NaN"
| "fadd NInf PInf = NaN"
| "fadd PInf _ = PInf"
| "fadd _ PInf = PInf"
| "fadd NInf _ = NInf"
| "fadd _ NInf = NInf"
| "fadd (Fin a) (Fin b) = round64 (a + b)"

fun fmul :: "jsnum \<Rightarrow> jsnum \<Rightarrow> jsnum" where
  "fmul NaN _ = NaN"
| "fmul _ NaN = NaN"
| "fmul (Fin a) (Fin b) = round64 (a * b)"
| "fmul (Fin a) PInf = (if a = 0 then NaN else if 0 < a then PInf else NInf)"
| "fmul (Fin a) NInf = (if a = 0 then NaN else if 0 < a then NInf else PInf)"
| "fmul PInf (Fin b) = (if b = 0 then NaN else if 0 < b then PInf else NInf)"
| "fmul NInf (Fin b) = (if b = 0 then NaN else if 0 < b then NInf else PInf)"
| "fmul PInf PInf = PInf"
| "fmul NInf NInf = PInf"
| "fmul PInf NInf = NInf"
| "fmul NInf PInf = NInf"

text \<open>A number is falsy when it is \<open>NaN\<close> or a zero.\<close>

fun truthy :: "jsnum \<Rightarrow> bool" where
  "truthy NaN = False"
| "truthy (Fin r) = (r \<noteq> 0)"
| "truthy _ = True"

text \<open>\<open>a || b\<close> on numbers.\<close>

definition or_else :: "jsnum \<Rightarrow> jsnum \<Rightarrow> jsnum" where
  "or_else a b = (if truthy a then a else b)"

text \<open>
  A property read from an object is a number or \<open>undefined\<close>; \<open>ToNumber\<close> is what the
  arithmetic operators apply to their operands.
\<close>

datatype jsval = Undefined | Num jsnum

fun ToNumber :: "jsval \<Rightarrow> jsnum" where
  "ToNumber Undefined = NaN"
| "ToNumber (Num x) = x"

text \<open>A value is a binary64 number when rounding leaves it as it is.\<close>

fun is_double :: "jsnum \<Rightarrow> bool" where
  "is_double (Fin r) = (round64 r = Fin r)"
| "is_double _ = True"

subsection \<open>Number.prototype.toFixed and parseFloat\<close>

definition digit_char :: "nat \<Rightarrow> char" where
  "digit_char d = ''0123456789'' ! d"

definition is_digit :: "char \<Rightarrow> bool" where
  "is_digit c = (c \<in> set ''0123456789'')"

definition digit_val :: "char \<Rightarrow> nat" where
  "digit_val c = of_char c - 48"

fun decimal :: "nat \<Rightarrow> string" where
  "decimal n = (if n < 10 then [digit_char n] else decimal (n div 10) @ [digit_char (n mod 10)])"

declare decimal.simps [simp del]

definition digits_val :: "string \<Rightarrow> nat" where
  "digits_val ds = foldl (\<lambda>a c. 10 * a + digit_val c) 0 ds"

text \<open>
  \<open>toFixed\<close> hands a value that is not finite, or of magnitude \<open>10^21\<close> and more, to
  \<open>Number::toString\<close>. That string is the shortest literal that reads back as the value;
  \<open>Shortest x\<close> stands for it. Every other result is the sequence of characters.
\<close>

datatype numstring = Literal string | Shortest jsnum

text \<open>
  \<open>x.toFixed(f)\<close>, for \<open>0 \<le> f \<le> 100\<close>: with \<open>n\<close> the integer for which \<open>n / 10^f\<close> is
  closest to the magnitude of \<open>x\<close> (the larger one of two), the digits of \<open>n\<close>, padded with
  zeros to \<open>f + 1\<close> digits, with a point before the last \<open>f\<close>.
\<close>

definition toFixed :: "jsnum \<Rightarrow> nat \<Rightarrow> numstring" where
  "toFixed x f =
     (case x of
        Fin r \<Rightarrow>
          let s = (if r < 0 then ''-'' else '''');
              a = \<bar>r\<bar>
          in if 10 ^ 21 \<le> a then Shortest x
             else
               let n = nat (round (a * 10 ^ f));
                   m = decimal n;
                   m = (if f \<noteq> 0
                        then let k = length m;
                                 m = (if k \<le> f then replicate (f + 1 - k) (CHR ''0'') @ m else m);
                                 k = length m
                             in take (k - f) m @ ''.'' @ drop (k - f) m
                        else m)
               in Literal (s @ m)
      | _ \<Rightarrow> Shortest x)"

definition is_space :: "char \<Rightarrow> bool" where
  "is_space c = (c \<in> set [CHR 0x09, CHR 0x0A, CHR 0x0B, CHR 0x0C, CHR 0x0D, CHR '' ''])"

text \<open>The exponent part of a decimal literal: \<open>e\<close> or \<open>E\<close>, a sign, digits.\<close>

definition exponent_part :: "string \<Rightarrow> int" where
  "exponent_part s =
     (case s of
        [] \<Rightarrow> 0
      | c # w \<Rightarrow>
          if c = CHR ''e'' \<or> c = CHR ''E''
          then (case w of
                  [] \<Rightarrow> 0
                | d # u \<Rightarrow>
                    if d = CHR ''-'' then - int (digits_val (takeWhile is_digit u))
                    else if d = CHR ''+'' then int (digits_val (takeWhile is_digit u))
                    else int (digits_val (takeWhile is_digit w)))
          else 0)"

text \<open>
  \<open>parseFloat\<close>: leading white space is skipped, the longest prefix that is a decimal
  literal is read, and its value is rounded to binary64; with no such prefix the result
  is \<open>NaN\<close>.
\<close>

definition parseLiteral :: "string \<Rightarrow> jsnum" where
  "parseLiteral s =
     (let t = dropWhile is_space s;
          neg = (t \<noteq> [] \<and> hd t = CHR ''-'');
          u = (if t \<noteq> [] \<and> (hd t = CHR ''-'' \<or> hd t = CHR ''+'') then tl t else t)
      in if take 8 u = ''Infinity'' then (if neg then NInf else PInf)
         else
           let ip = takeWhile is_digit u;
               r1 = dropWhile is_digit u;
               fp = (if r1 \<noteq> [] \<and> hd r1 = CHR ''.'' then takeWhile is_digit (tl r1) else []);
               r2 = (if r1 \<noteq> [] \<and> hd r1 = CHR ''.'' then dropWhile is_digit (tl r1) else r1)
           in if ip = [] \<and> fp = [] then NaN
              else
                let v = of_nat (digits_val (ip @ fp)) / 10 ^ length fp * 10 powi exponent_part r2
                in round64 (if neg then - v else v))"

fun parseFloat :: "numstring \<Rightarrow> jsnum" where
  "parseFloat (Literal s) = parseLiteral s"
| "parseFloat (Shortest x) = x"

section \<open>The income form\<close>

subsection \<open>Records\<close>

record Product =
  product_id :: string
  quantity :: jsval
  price :: jsval

record Origin =
  originType :: string
  origin_id :: string

record IncomeData =
  income_id :: string
  warehouse :: string
  date :: string
  products :: "Product list"
  totalPrice :: jsnum
  incomeType :: string
  origin :: Origin
  documents :: "string list"
  income_status :: bool

record SupplierData =
  supplier_id :: string
  name :: string
  address :: string
  phone_number :: string
  email :: string
  supplier_type :: string
  supplier_status :: bool
  rnc :: string

text \<open>The outcome of an awaited request: the promise resolves with a payload or rejects.\<close>

datatype 'a response = Resolved 'a | Rejected

record AlertConfig =
  visible :: bool
  color :: string
  message :: string

record Modals =
  createSupplier :: bool
  createProduct :: bool

datatype modalName = CreateSupplier | CreateProduct

text \<open>
  The state of one \<open>IncomeForm\<close>: \<open>formik.values\<close> and \<open>formik.isSubmitting\<close>, the
  \<open>useState\<close> cells of the component, the callbacks waiting in \<open>setTimeout\<close> (the delay
  in milliseconds and the alert configuration the callback stores), and what was written
  to the console.
\<close>

record IncomeForm =
  formik_values :: IncomeData
  isSubmitting :: bool
  cancelModalOpen :: bool
  suppliers :: "SupplierData list"
  selectedSupplier :: "SupplierData option"
  modals :: Modals
  alertConfig :: AlertConfig
  timers :: "(nat \<times> AlertConfig) list"
  console :: "string list"

definition initialValues :: IncomeData where
  "initialValues =
     \<lparr>income_id = '''', warehouse = ''AG001'', date = '''', products = [],
      totalPrice = Fin 0, incomeType = '''',
      origin = \<lparr>originType = ''supplier'', origin_id = ''''\<rparr>,
      documents = [], income_status = True\<rparr>"

definition IncomeForm_init :: "IncomeData option \<Rightarrow> IncomeForm" where
  "IncomeForm_init initialData =
     \<lparr>formik_values = (case initialData of Some d \<Rightarrow> d | None \<Rightarrow> initialValues),
      isSubmitting = False,
      cancelModalOpen = False,
      suppliers = [],
      selectedSupplier = None,
      modals = \<lparr>createSupplier = False, createProduct = False\<rparr>,
      alertConfig = \<lparr>visible = False, color = '''', message = ''''\<rparr>,
      timers = [],
      console = []\<rparr>"

subsection \<open>The derived total\<close>

text \<open>
  The effect on \<open>formik.values.products\<close>:
  \<^verbatim>\<open>
  const subtotal = formik.values.products.reduce(
      (sum, product) => sum + (product.quantity * product.price || 0), 0);
  const totalWithTax = subtotal * 1.18;
  formik.setFieldValue("totalPrice", parseFloat(totalWithTax.toFixed(2)));
  \<close>
\<close>

definition line_amount :: "Product \<Rightarrow> jsnum" where
  "line_amount product =
     or_else (fmul (ToNumber (quantity product)) (ToNumber (price product))) (Fin 0)"

definition subtotal :: "Product list \<Rightarrow> jsnum" where
  "subtotal ps = foldl (\<lambda>sum product. fadd sum (line_amount product)) (Fin 0) ps"

text \<open>The literal \<open>1.18\<close> denotes the binary64 number nearest to it.\<close>

definition tax_factor :: jsnum where
  "tax_factor = round64 (118 / 100)"

definition totalWithTax :: "Product list \<Rightarrow> jsnum" where
  "totalWithTax ps = fmul (subtotal ps) tax_factor"

definition derived_total :: "Product list \<Rightarrow> jsnum" where
  "derived_total ps = parseFloat (toFixed (totalWithTax ps) 2)"

definition totalPrice_effect :: "IncomeForm \<Rightarrow> IncomeForm" where
  "totalPrice_effect st =
     st\<lparr>formik_values := (formik_values st)\<lparr>totalPrice := derived_total (products (formik_values st))\<rparr>\<rparr>"

text \<open>
  Rounding to two decimal places as the specification words it, on exact numbers: to the
  nearest multiple of \<open>1/100\<close>, a tie going away from zero.
\<close>

definition round2 :: "rat \<Rightarrow> rat" where
  "round2 x = sgn x * of_int (round (\<bar>x\<bar> * 100)) / 100"

text \<open>
  The total as the specification words it, in exact arithmetic: the sum over the items of
  quantity times price, a missing quantity or price counting as zero, times \<open>1.18\<close>,
  rounded to two decimal places.
\<close>

fun exact_amount :: "Product \<Rightarrow> rat" where
  "exact_amount product =
     (case (quantity product, price product) of
        (Num (Fin q), Num (Fin p)) \<Rightarrow> q * p
      | _ \<Rightarrow> 0)"

definition spec_total :: "Product list \<Rightarrow> rat" where
  "spec_total ps = round2 (sum_list (map exact_amount ps) * (118 / 100))"

subsection \<open>The selected supplier\<close>

text \<open>
  The effect on \<open>formik.values.origin.id\<close> and \<open>suppliers\<close>:
  \<^verbatim>\<open>
  const supplier = suppliers.find((s) => s.id === formik.values.origin.id) || null;
  setSelectedSupplier(supplier);
  \<close>
  \<open>None\<close> is \<open>null\<close>.
\<close>

definition selectedSupplier_effect :: "IncomeForm \<Rightarrow> IncomeForm" where
  "selectedSupplier_effect st =
     st\<lparr>selectedSupplier :=
          find (\<lambda>s. supplier_id s = origin_id (origin (formik_values st))) (suppliers st)\<rparr>"

text \<open>
  The five disabled inputs under the supplier selector are given
  \<open>selectedSupplier?.address\<close> and so on as their value: \<open>None\<close> is \<open>undefined\<close>, an
  input without a value.
\<close>

record SupplierFields =
  supplierAddress :: "string option"
  supplierEmail :: "string option"
  supplierRNC :: "string option"
  supplierPhoneNumber :: "string option"
  supplierType :: "string option"

definition supplier_fields :: "IncomeForm \<Rightarrow> SupplierFields" where
  "supplier_fields st =
     \<lparr>supplierAddress = map_option address (selectedSupplier st),
      supplierEmail = map_option email (selectedSupplier st),
      supplierRNC = map_option rnc (selectedSupplier st),
      supplierPhoneNumber = map_option phone_number (selectedSupplier st),
      supplierType = map_option supplier_type (selectedSupplier st)\<rparr>"

definition no_supplier_fields :: SupplierFields where
  "no_supplier_fields =
     \<lparr>supplierAddress = None, supplierEmail = None, supplierRNC = None,
      supplierPhoneNumber = None, supplierType = None\<rparr>"

text \<open>
  What the five inputs show. React DOM writes the text of an input element only when the
  value it is given is neither \<open>undefined\<close> nor \<open>null\<close>; an input given \<open>undefined\<close> is an
  uncontrolled one and keeps the text it shows.
\<close>

definition input_shown :: "string \<Rightarrow> string option \<Rightarrow> string" where
  "input_shown before v = (case v of Some s \<Rightarrow> s | None \<Rightarrow> before)"

record SupplierInputs =
  shownAddress :: string
  shownEmail :: string
  shownRNC :: string
  shownPhoneNumber :: string
  shownType :: string

definition render_supplier_inputs :: "SupplierInputs \<Rightarrow> IncomeForm \<Rightarrow> SupplierInputs" where
  "render_supplier_inputs shown st =
     \<lparr>shownAddress = input_shown (shownAddress shown) (supplierAddress (supplier_fields st)),
      shownEmail = input_shown (shownEmail shown) (supplierEmail (supplier_fields st)),
      shownRNC = input_shown (shownRNC shown) (supplierRNC (supplier_fields st)),
      shownPhoneNumber = input_shown (shownPhoneNumber shown) (supplierPhoneNumber (supplier_fields st)),
      shownType = input_shown (shownType shown) (supplierType (supplier_fields st))\<rparr>"

text \<open>The inputs of a form that has just been mounted show nothing.\<close>

definition inputs_mounted :: SupplierInputs where
  "inputs_mounted =
     \<lparr>shownAddress = [], shownEmail = [], shownRNC = [], shownPhoneNumber = [],
      shownType = []\<rparr>"

definition setFieldValue_origin_id :: "string \<Rightarrow> IncomeForm \<Rightarrow> IncomeForm" where
  "setFieldValue_origin_id v st =
     st\<lparr>formik_values := (formik_values st)\<lparr>origin := (origin (formik_values st))\<lparr>origin_id := v\<rparr>\<rparr>\<rparr>"

definition handleSupplierChange :: "string \<Rightarrow> IncomeForm \<Rightarrow> IncomeForm" where
  "handleSupplierChange supplierId st =
     setFieldValue_origin_id supplierId
       (st\<lparr>selectedSupplier := find (\<lambda>s. supplier_id s = supplierId) (suppliers st)\<rparr>)"

definition handleProductSelect :: "Product list \<Rightarrow> IncomeForm \<Rightarrow> IncomeForm" where
  "handleProductSelect selectedProducts st =
     st\<lparr>formik_values := (formik_values st)\<lparr>products := selectedProducts\<rparr>\<rparr>"

subsection \<open>Validation of the identifier\<close>

text \<open>
  \<^verbatim>\<open>
  id: Yup.string()
      .required("Por favor, ingrese el ID")
      .test('unique_id', "Este identificador ya existe, por favor ingrese otro",
          async (value) => {
              if (!value) return false;
              try {
                  const result = await axiosHelper.get(`${apiUrl}/incomes/income_id_exists/${value}`);
                  return !result.data.data;
              } catch (error) { ...; return false; }
          })
  \<close>
  The value of the field is a string or \<open>undefined\<close> (\<open>None\<close>). The backend is the function
  from an identifier to the outcome of the request, whose payload says whether the
  identifier exists.
\<close>

definition required_test :: "string option \<Rightarrow> bool" where
  "required_test v = (case v of None \<Rightarrow> False | Some s \<Rightarrow> s \<noteq> [])"

definition unique_id_test :: "(string \<Rightarrow> bool response) \<Rightarrow> string option \<Rightarrow> bool" where
  "unique_id_test income_id_exists v =
     (case v of
        None \<Rightarrow> False
      | Some s \<Rightarrow>
          if s = [] then False
          else (case income_id_exists s of
                  Resolved exists \<Rightarrow> \<not> exists
                | Rejected \<Rightarrow> False))"

definition required_message :: string where
  "required_message = ''Por favor, ingrese el ID''"

definition unique_id_message :: string where
  "unique_id_message = ''Este identificador ya existe, por favor ingrese otro''"

text \<open>
  The error of the \<open>id\<close> field: the message of the first test of the schema that fails,
  \<open>None\<close> when the field is valid. Formik does not call \<open>onSubmit\<close> while a field has an
  error.
\<close>

definition validate_id :: "(string \<Rightarrow> bool response) \<Rightarrow> string option \<Rightarrow> string option" where
  "validate_id income_id_exists v =
     (if \<not> required_test v then Some required_message
      else if \<not> unique_id_test income_id_exists v then Some unique_id_message
      else None)"

subsection \<open>Creating a supplier from the income form\<close>

definition toggleModal :: "modalName \<Rightarrow> bool option \<Rightarrow> IncomeForm \<Rightarrow> IncomeForm" where
  "toggleModal modalName state st =
     (case modalName of
        CreateSupplier \<Rightarrow>
          st\<lparr>modals := (modals st)\<lparr>createSupplier :=
                (case state of Some b \<Rightarrow> b | None \<Rightarrow> \<not> createSupplier (modals st))\<rparr>\<rparr>
      | CreateProduct \<Rightarrow>
          st\<lparr>modals := (modals st)\<lparr>createProduct :=
                (case state of Some b \<Rightarrow> b | None \<Rightarrow> \<not> createProduct (modals st))\<rparr>\<rparr>)"

text \<open>
  \<open>handleError\<close> logs, shows a danger alert and starts a timer of 5000 ms. The callback of
  the timer stores the alert configuration the handler captured when it was created, with
  \<open>visible\<close> false.
\<close>

definition handleError :: "AlertConfig \<Rightarrow> string \<Rightarrow> IncomeForm \<Rightarrow> IncomeForm" where
  "handleError captured msg st =
     st\<lparr>console := console st @ [msg],
        alertConfig := \<lparr>visible = True, color = ''danger'', message = msg\<rparr>,
        timers := timers st @ [(5000, captured\<lparr>visible := False\<rparr>)]\<rparr>"

definition fetchSuppliers_error :: string where
  "fetchSuppliers_error =
     ''Ha ocurrido un error al obtener a los proveedores, intentelo m'' @ [CHR 0xC3, CHR 0xA1]
       @ ''s tarde''"

definition createSupplier_error :: string where
  "createSupplier_error =
     ''Ha ocurrido un error al crear al proveedor, intentelo m'' @ [CHR 0xC3, CHR 0xA1]
       @ ''s tarde''"

definition createSupplier_success :: string where
  "createSupplier_success = ''Proveedor creado con '' @ [CHR 0xC3, CHR 0xA9] @ ''xito''"

text \<open>
  \<open>fetchSuppliers\<close> asks the backend for the active suppliers and stores the list; it
  catches its own failure and reports it.
\<close>

definition fetchSuppliers ::
  "AlertConfig \<Rightarrow> SupplierData list response \<Rightarrow> IncomeForm \<Rightarrow> IncomeForm" where
  "fetchSuppliers captured fetched st =
     (case fetched of
        Resolved list \<Rightarrow> st\<lparr>suppliers := list\<rparr>
      | Rejected \<Rightarrow> handleError captured fetchSuppliers_error st)"

text \<open>
  \<^verbatim>\<open>
  const handleCreateSupplier = async (supplierData: SupplierData) => {
      try {
          const response = await axiosHelper.create(`${apiUrl}/supplier/create_supplier`, supplierData);
          const newSupplier = response.data.data;
          await fetchSuppliers();
          setSelectedSupplier(newSupplier);
          formik.setFieldValue("origin.id", newSupplier.id);
          toggleModal("createSupplier");
          setAlertConfig({ visible: true, color: 'success', message: ... })
          setTimeout(() => setAlertConfig({ ...alertConfig, visible: false }), 5000);
      } catch (error) {
          toggleModal('createSupplier')
          handleError(error, ...)
      }
  };
  \<close>
  \<open>created\<close> is the outcome of the create request, \<open>fetched\<close> the outcome of the request
  \<open>fetchSuppliers\<close> makes.
\<close>

definition handleCreateSupplier ::
  "SupplierData response \<Rightarrow> SupplierData list response \<Rightarrow> IncomeForm \<Rightarrow> IncomeForm" where
  "handleCreateSupplier created fetched st =
     (let captured = alertConfig st
      in case created of
           Resolved newSupplier \<Rightarrow>
             let st1 = fetchSuppliers captured fetched st;
                 st2 = st1\<lparr>selectedSupplier := Some newSupplier\<rparr>;
                 st3 = setFieldValue_origin_id (supplier_id newSupplier) st2;
                 st4 = toggleModal CreateSupplier None st3;
                 st5 = st4\<lparr>alertConfig :=
                         \<lparr>visible = True, color = ''success'', message = createSupplier_success\<rparr>\<rparr>
             in st5\<lparr>timers := timers st5 @ [(5000, captured\<lparr>visible := False\<rparr>)]\<rparr>
         | Rejected \<Rightarrow>
             handleError captured createSupplier_error (toggleModal CreateSupplier None st))"

subsection \<open>Submitting the income form\<close>

text \<open>
  \<^verbatim>\<open>
  onSubmit: async (values, { setSubmitting, resetForm }) => {
      try { setSubmitting(true); await onSubmit(values); }
      catch (error) { console.error("Error al enviar el formulario:", error); }
      finally { setSubmitting(false); }
  }
  \<close>
  The handler runs up to the \<open>await\<close>, and goes on when the promise of the caller's
  \<open>onSubmit\<close> settles.
\<close>

definition submit_error :: string where
  "submit_error = ''Error al enviar el formulario:''"

definition IncomeForm_onSubmit_begin :: "IncomeForm \<Rightarrow> IncomeForm" where
  "IncomeForm_onSubmit_begin st = st\<lparr>isSubmitting := True\<rparr>"

definition IncomeForm_onSubmit_settle :: "unit response \<Rightarrow> IncomeForm \<Rightarrow> IncomeForm" where
  "IncomeForm_onSubmit_settle r st =
     (case r of
        Resolved _ \<Rightarrow> st
      | Rejected \<Rightarrow> st\<lparr>console := console st @ [submit_error]\<rparr>)\<lparr>isSubmitting := False\<rparr>"

text \<open>The submit button: \<open>disabled={formik.isSubmitting}\<close>.\<close>

definition IncomeForm_submit_disabled :: "IncomeForm \<Rightarrow> bool" where
  "IncomeForm_submit_disabled st = isSubmitting st"

text \<open>The oldest waiting timer fires: its callback stores its alert configuration.\<close>

definition IncomeForm_timeout :: "IncomeForm \<Rightarrow> IncomeForm" where
  "IncomeForm_timeout st =
     (case timers st of
        [] \<Rightarrow> st
      | (delay, config) # rest \<Rightarrow> st\<lparr>alertConfig := config, timers := rest\<rparr>)"

text \<open>
  The effect that resolves the selected supplier has the dependencies
  \<open>[formik.values.origin.id, suppliers]\<close>: after a handler it runs when the identifier is
  not the one from before the handler, or when the handler has stored an array with
  \<open>setSuppliers\<close> (the array of a response is a new object).
\<close>

fun resolved :: "'a response \<Rightarrow> bool" where
  "resolved (Resolved _) = True"
| "resolved Rejected = False"

definition render_after :: "IncomeForm \<Rightarrow> bool \<Rightarrow> IncomeForm \<Rightarrow> IncomeForm" where
  "render_after before suppliers_set st =
     (if suppliers_set
         \<or> origin_id (origin (formik_values st)) \<noteq> origin_id (origin (formik_values before))
      then selectedSupplier_effect st else st)"

text \<open>
  The runs of one income form, with the number of calls of the caller's \<open>onSubmit\<close> that
  have not settled. Formik calls the handler from \<open>handleSubmit\<close>, which the form runs on
  its submit event; the submit button raises none while it is disabled. The other steps
  are the edits, the fetch of the suppliers, the create-supplier overlay and the timers,
  each followed by the effects its changes start.
\<close>

inductive IncomeForm_run :: "IncomeForm \<Rightarrow> nat \<Rightarrow> bool" where
  mount: "IncomeForm_run (IncomeForm_init initialData) 0"
| submit: "IncomeForm_run st n \<Longrightarrow> \<not> IncomeForm_submit_disabled st \<Longrightarrow>
     IncomeForm_run (IncomeForm_onSubmit_begin st) (Suc n)"
| settle: "IncomeForm_run st (Suc n) \<Longrightarrow>
     IncomeForm_run (IncomeForm_onSubmit_settle r st) n"
| select_products: "IncomeForm_run st n \<Longrightarrow>
     IncomeForm_run (totalPrice_effect (handleProductSelect ps st)) n"
| change_supplier: "IncomeForm_run st n \<Longrightarrow>
     IncomeForm_run (render_after st False (handleSupplierChange supplierId st)) n"
| suppliers_fetched: "IncomeForm_run st n \<Longrightarrow>
     IncomeForm_run
       (render_after st (resolved fetched) (fetchSuppliers (alertConfig st) fetched st)) n"
| open_create_supplier: "IncomeForm_run st n \<Longrightarrow>
     IncomeForm_run (toggleModal CreateSupplier None st) n"
| create_supplier: "IncomeForm_run st n \<Longrightarrow>
     IncomeForm_run
       (render_after st (resolved created \<and> resolved fetched)
          (handleCreateSupplier created fetched st)) n"
| timeout: "IncomeForm_run st n \<Longrightarrow>
     IncomeForm_run (IncomeForm_timeout st) n"

section \<open>The supplier form\<close>

text \<open>
  The state of one \<open>SupplierForm\<close>; a waiting timer holds the value its callback gives to
  \<open>showErrorAlert\<close>.
\<close>

record SupplierForm =
  supplier_values :: SupplierData
  supplier_isSubmitting :: bool
  showErrorAlert :: bool
  supplier_timers :: "(nat \<times> bool) list"
  supplier_console :: "string list"

definition SupplierForm_init :: "SupplierData option \<Rightarrow> SupplierForm" where
  "SupplierForm_init initialData =
     \<lparr>supplier_values =
        (case initialData of
           Some d \<Rightarrow> d
         | None \<Rightarrow>
             \<lparr>supplier_id = '''', name = '''', address = '''', phone_number = '''',
              email = '''', supplier_type = '''', supplier_status = True, rnc = ''''\<rparr>),
      supplier_isSubmitting = False,
      showErrorAlert = False,
      supplier_timers = [],
      supplier_console = []\<rparr>"

text \<open>
  \<^verbatim>\<open>
  onSubmit: async (values, { setSubmitting }) => {
      try { setSubmitting(true); await onSubmit(values); }
      catch (error) { console.error(...); setShowErrorAlert(true); }
      finally { setSubmitting(false); setTimeout(() => setShowErrorAlert(false), 5000); }
  }
  \<close>
\<close>

definition SupplierForm_onSubmit_begin :: "SupplierForm \<Rightarrow> SupplierForm" where
  "SupplierForm_onSubmit_begin st = st\<lparr>supplier_isSubmitting := True\<rparr>"

definition SupplierForm_onSubmit_settle :: "unit response \<Rightarrow> SupplierForm \<Rightarrow> SupplierForm" where
  "SupplierForm_onSubmit_settle r st =
     (let st1 = (case r of
                   Resolved _ \<Rightarrow> st
                 | Rejected \<Rightarrow>
                     st\<lparr>supplier_console := supplier_console st @ [submit_error],
                        showErrorAlert := True\<rparr>)
      in st1\<lparr>supplier_isSubmitting := False,
             supplier_timers := supplier_timers st1 @ [(5000, False)]\<rparr>)"

definition SupplierForm_submit_disabled :: "SupplierForm \<Rightarrow> bool" where
  "SupplierForm_submit_disabled st = supplier_isSubmitting st"

text \<open>The oldest waiting timer fires.\<close>

definition SupplierForm_timeout :: "SupplierForm \<Rightarrow> SupplierForm" where
  "SupplierForm_timeout st =
     (case supplier_timers st of
        [] \<Rightarrow> st
      | (delay, v) # rest \<Rightarrow> st\<lparr>showErrorAlert := v, supplier_timers := rest\<rparr>)"

text \<open>The runs of one supplier form, counted as those of the income form.\<close>

inductive SupplierForm_run :: "SupplierForm \<Rightarrow> nat \<Rightarrow> bool" where
  supplier_mount: "SupplierForm_run (SupplierForm_init initialData) 0"
| supplier_submit: "SupplierForm_run st n \<Longrightarrow> \<not> SupplierForm_submit_disabled st \<Longrightarrow>
     SupplierForm_run (SupplierForm_onSubmit_begin st) (Suc n)"
| supplier_settle: "SupplierForm_run st (Suc n) \<Longrightarrow>
     SupplierForm_run (SupplierForm_onSubmit_settle r st) n"
| supplier_edit: "SupplierForm_run st n \<Longrightarrow>
     SupplierForm_run (st\<lparr>supplier_values := v\<rparr>) n"
| supplier_timeout: "SupplierForm_run st n \<Longrightarrow>
     SupplierForm_run (SupplierForm_timeout st) n"

section \<open>The product catalog\<close>

text \<open>
  A row of the table is typed \<open>any\<close>; its \<open>status\<close> is whatever the backend sent.
\<close>

datatype jsany = JUndefined | JNull | JBool bool | JNum jsnum | JStr string

record ProductRow =
  row_id :: string
  row_name :: string
  row_image :: "string option"
  row_status :: jsany

datatype catalogModal = Create | Details | Update | Delete

record CatalogModals =
  modal_create :: bool
  modal_details :: bool
  modal_update :: bool
  modal_delete :: bool

record ViewProducts =
  selectedProduct :: "ProductRow option"
  catalog_modals :: CatalogModals

text \<open>
  The three buttons of the actions column, in the order of the source, each with the modal
  its \<open>onClick\<close> opens and its \<open>disabled\<close> attribute: none on the first,
  \<open>row.status !== true\<close> on the other two.
\<close>

record ActionButton =
  opens :: catalogModal
  disabled :: bool

definition action_buttons :: "ProductRow \<Rightarrow> ActionButton list" where
  "action_buttons row =
     [\<lparr>opens = Details, disabled = False\<rparr>,
      \<lparr>opens = Update, disabled = (row_status row \<noteq> JBool True)\<rparr>,
      \<lparr>opens = Delete, disabled = (row_status row \<noteq> JBool True)\<rparr>]"

definition catalog_toggleModal :: "catalogModal \<Rightarrow> ViewProducts \<Rightarrow> ViewProducts" where
  "catalog_toggleModal m st =
     (case m of
        Create \<Rightarrow> st\<lparr>catalog_modals := (catalog_modals st)\<lparr>modal_create := \<not> modal_create (catalog_modals st)\<rparr>\<rparr>
      | Details \<Rightarrow> st\<lparr>catalog_modals := (catalog_modals st)\<lparr>modal_details := \<not> modal_details (catalog_modals st)\<rparr>\<rparr>
      | Update \<Rightarrow> st\<lparr>catalog_modals := (catalog_modals st)\<lparr>modal_update := \<not> modal_update (catalog_modals st)\<rparr>\<rparr>
      | Delete \<Rightarrow> st\<lparr>catalog_modals := (catalog_modals st)\<lparr>modal_delete := \<not> modal_delete (catalog_modals st)\<rparr>\<rparr>)"

text \<open>
  \<open>handleClicModal\<close> selects the row and toggles the modal (the image it then fetches for
  the details and update modals changes neither).
\<close>

definition handleClicModal :: "catalogModal \<Rightarrow> ProductRow \<Rightarrow> ViewProducts \<Rightarrow> ViewProducts" where
  "handleClicModal m data st = catalog_toggleModal m (st\<lparr>selectedProduct := Some data\<rparr>)"

text \<open>A click on a button of a row; a disabled button does not call its handler.\<close>

definition click :: "ActionButton \<Rightarrow> ProductRow \<Rightarrow> ViewProducts \<Rightarrow> ViewProducts" where
  "click b row st = (if disabled b then st else handleClicModal (opens b) row st)"

section \<open>Sample data\<close>

text \<open>Two suppliers, a backend and an open create-supplier overlay, for concrete runs.\<close>

definition supplier_S1 :: SupplierData where
  "supplier_S1 =
     \<lparr>supplier_id = ''S1'', name = ''Alfa'', address = ''Calle 1'', phone_number = ''8095550001'',
      email = ''alfa@example.com'', supplier_type = ''Equipos'', supplier_status = True,
      rnc = ''101''\<rparr>"

definition supplier_S2 :: SupplierData where
  "supplier_S2 =
     \<lparr>supplier_id = ''S2'', name = ''Beta'', address = ''Calle 2'', phone_number = ''8095550002'',
      email = ''beta@example.com'', supplier_type = ''Servicios'', supplier_status = True,
      rnc = ''102''\<rparr>"

definition backend_example :: "string \<Rightarrow> bool response" where
  "backend_example s =
     (if s = ''IN-1'' then Resolved True else if s = ''IN-2'' then Rejected else Resolved False)"

text \<open>
  A form whose cache holds the two suppliers; then the first supplier is chosen in the
  selector; then the empty option is chosen.
\<close>

definition suppliers_loaded :: IncomeForm where
  "suppliers_loaded =
     selectedSupplier_effect
       (fetchSuppliers (alertConfig (IncomeForm_init None)) (Resolved [supplier_S1, supplier_S2])
          (IncomeForm_init None))"

definition S1_chosen :: IncomeForm where
  "S1_chosen = selectedSupplier_effect (handleSupplierChange ''S1'' suppliers_loaded)"

definition none_chosen :: IncomeForm where
  "none_chosen = selectedSupplier_effect (handleSupplierChange [] S1_chosen)"

definition overlay_open :: IncomeForm where
  "overlay_open = toggleModal CreateSupplier None (IncomeForm_init None)"

definition inactive_row :: ProductRow where
  "inactive_row =
     \<lparr>row_id = ''P1'', row_name = ''Guantes'', row_image = None, row_status = JBool False\<rparr>"

definition catalog_closed :: ViewProducts where
  "catalog_closed =
     \<lparr>selectedProduct = None,
      catalog_modals = \<lparr>modal_create = False, modal_details = False, modal_update = False,
        modal_delete = False\<rparr>\<rparr>"


section \<open>Properties of the number model\<close>

lemma binexp_ge1:
  assumes "1 \<le> r"
  shows "2 powi (binexp r) \<le> r \<and> r < 2 powi (binexp r + 1)"
proof -
  let ?n = "\<lfloor>r\<rfloor>"
  have n: "0 < ?n" using assms by simp
  from bitlen_bounds [OF n]
  have lo: "2 ^ nat (bitlen ?n - 1) \<le> ?n" and hi: "?n < 2 ^ nat (bitlen ?n)" by auto
  have b: "1 \<le> bitlen ?n" using n by (simp add: bitlen_ge_iff_power)
  have e: "binexp r = bitlen ?n - 1" using assms by (simp add: binexp_def)
  have "(2::rat) powi (bitlen ?n - 1) = of_int (2 ^ nat (bitlen ?n - 1))"
    using b by (simp add: power_int_def)
  also have "\<dots> \<le> of_int ?n" using lo by (simp only: of_int_le_iff)
  also have "\<dots> \<le> r" by simp
  finally have 1: "2 powi (binexp r) \<le> r" by (simp add: e)
  have "?n + 1 \<le> 2 ^ nat (bitlen ?n)" using hi by simp
  then have "(of_int (?n + 1) :: rat) \<le> of_int (2 ^ nat (bitlen ?n))"
    by (simp only: of_int_le_iff)
  moreover have "r < of_int (?n + 1)" by linarith
  moreover have "(2::rat) powi (bitlen ?n) = of_int (2 ^ nat (bitlen ?n))"
    using b by (simp add: power_int_def)
  ultimately have 2: "r < 2 powi (binexp r + 1)" by (simp add: e)
  show ?thesis using 1 2 by simp
qed

lemma binexp_lt1:
  assumes "0 < r" "r < 1"
  shows "2 powi (binexp r) \<le> r \<and> r < 2 powi (binexp r + 1)"
proof -
  define t where "t = 1 / r"
  define m where "m = \<lceil>t\<rceil> - 1"
  define k where "k = bitlen m"
  have t: "1 < t" using assms by (simp add: t_def)
  have m: "0 < m" unfolding m_def using t by linarith
  have mt: "of_int m < t" "t \<le> of_int m + 1" unfolding m_def by linarith+
  from bitlen_bounds [OF m]
  have lo: "2 ^ nat (k - 1) \<le> m" and hi: "m < 2 ^ nat k" by (auto simp: k_def)
  have b: "1 \<le> k" using m by (simp add: k_def bitlen_ge_iff_power)
  have e: "binexp r = - k" using assms by (simp add: binexp_def k_def m_def t_def)
  have c1: "(2::rat) ^ nat (k - 1) = of_int (2 ^ nat (k - 1))"
    and c2: "(2::rat) ^ nat k = of_int (2 ^ nat k)" by simp_all
  have "(of_int (2 ^ nat (k - 1)) :: rat) \<le> of_int m"
    using lo by (simp only: of_int_le_iff)
  then have lo': "(2::rat) ^ nat (k - 1) < t" using mt(1) unfolding c1 by linarith
  have "m + 1 \<le> 2 ^ nat k" using hi by simp
  then have "(of_int (m + 1) :: rat) \<le> of_int (2 ^ nat k)"
    by (simp only: of_int_le_iff)
  then have "(of_int m :: rat) + 1 \<le> of_int (2 ^ nat k)" by (simp only: of_int_add of_int_1)
  then have hi': "t \<le> (2::rat) ^ nat k" using mt(2) unfolding c2 by linarith
  have p1: "(2::rat) powi (- k) = 1 / 2 ^ nat k"
    using b by (simp add: power_int_def field_simps)
  have p2: "(2::rat) powi (1 - k) = 1 / 2 ^ nat (k - 1)"
    using b by (simp add: power_int_def field_simps nat_diff_distrib)
  have 1: "1 / 2 ^ nat k \<le> r"
    using hi' assms by (simp add: field_simps t_def)
  have 2: "r < 1 / 2 ^ nat (k - 1)"
    using lo' assms by (simp add: field_simps t_def)
  show ?thesis using 1 2 by (simp add: e p1 p2)
qed

lemma binexp_bounds:
  "0 < r \<Longrightarrow> 2 powi (binexp r) \<le> r \<and> r < 2 powi (binexp r + 1)"
  using binexp_ge1 [of r] binexp_lt1 [of r] by (cases "1 \<le> r") auto

lemma binexp_unique:
  assumes "0 < r" "2 powi e \<le> r" "r < 2 powi (e + 1)"
  shows "binexp r = e"
proof -
  from binexp_bounds [OF assms(1)]
  have a: "2 powi (binexp r) \<le> r" and b: "r < 2 powi (binexp r + 1)" by auto
  have 1: "e < binexp r + 1"
  proof (rule ccontr)
    assume "\<not> e < binexp r + 1"
    then have "(2::rat) powi (binexp r + 1) \<le> 2 powi e"
      by (intro power_int_increasing) auto
    then show False using assms(2) b by simp
  qed
  have 2: "binexp r < e + 1"
  proof (rule ccontr)
    assume "\<not> binexp r < e + 1"
    then have "(2::rat) powi (e + 1) \<le> 2 powi (binexp r)"
      by (intro power_int_increasing) auto
    then show False using assms(3) a by simp
  qed
  show ?thesis using 1 2 by simp
qed

text \<open>Rounding a value whose binary exponent is known; this is how concrete values are computed.\<close>

lemma round64_at:
  assumes "r \<noteq> 0" "2 powi e \<le> \<bar>r\<bar>" "\<bar>r\<bar> < 2 powi (e + 1)"
  shows "round64 r =
     (let q = 2 powi (max e (- 1022) - 52);
          v = of_int (roundTiesToEven (\<bar>r\<bar> / q)) * q
      in if 2 powi 1024 \<le> v then (if r < 0 then NInf else PInf)
         else Fin (if r < 0 then - v else v))"
proof -
  have "binexp \<bar>r\<bar> = e"
    by (rule binexp_unique) (use assms in auto)
  then show ?thesis using assms(1) by (simp add: round64_def quantum_def)
qed

lemma roundTiesToEven_of_int: "roundTiesToEven (of_int n) = n"
  by (simp add: roundTiesToEven_def)

lemma roundTiesToEven_le: "x \<le> of_int N \<Longrightarrow> roundTiesToEven x \<le> N"
  unfolding roundTiesToEven_def Let_def by (auto; linarith)

lemma roundTiesToEven_nonneg: "0 \<le> x \<Longrightarrow> 0 \<le> roundTiesToEven x"
  unfolding roundTiesToEven_def Let_def by (auto; linarith)

text \<open>A multiple of a power of two with at most 53 significant bits lies on its own grid.\<close>

lemma quantum_grid:
  assumes m: "0 < m" "m \<le> 2 ^ 53" and k: "- 1074 \<le> k"
  shows "\<exists>n. of_int m * 2 powi k = of_int n * quantum (of_int m * 2 powi k)"
proof -
  define v :: rat where "v = of_int m * 2 powi k"
  have vpos: "0 < v" using m by (simp add: v_def)
  define j where "j = max (binexp v) (- 1022) - 52"
  have q: "quantum v = 2 powi j" using vpos by (simp add: quantum_def j_def)
  show ?thesis
  proof (cases "m = 2 ^ 53")
    case True
    have v: "v = 2 powi (k + 53)"
      by (simp add: v_def True power_int_add)
    have "binexp v = k + 53"
      by (rule binexp_unique) (use vpos in \<open>simp_all add: v power_int_add\<close>)
    then have j: "j = k + 1" using k by (simp add: j_def)
    have "v = of_int (2 ^ 52) * 2 powi j"
      by (simp add: v j power_int_add)
    then show ?thesis unfolding v_def [symmetric] q by blast
  next
    case False
    then have "m < 2 ^ 53" using m by simp
    then have "(of_int m :: rat) < of_int (2 ^ 53)" by (simp only: of_int_less_iff)
    then have "v < 2 ^ 53 * 2 powi k" by (simp add: v_def)
    then have lt: "v < 2 powi (k + 53)" by (simp add: power_int_add)
    have "binexp v < k + 53"
    proof (rule ccontr)
      assume "\<not> binexp v < k + 53"
      then have "(2::rat) powi (k + 53) \<le> 2 powi (binexp v)"
        by (intro power_int_increasing) auto
      then show False using binexp_bounds [OF vpos] lt by simp
    qed
    then have jk: "j \<le> k" using k by (simp add: j_def)
    have "(2::rat) powi k = 2 powi (k - j) * 2 powi j"
      by (simp add: power_int_add [symmetric])
    also have "(2::rat) powi (k - j) = of_int (2 ^ nat (k - j))"
      using jk by (simp add: power_int_def)
    finally have "v = of_int (m * 2 ^ nat (k - j)) * 2 powi j"
      by (simp add: v_def)
    then show ?thesis unfolding v_def [symmetric] q by blast
  qed
qed

text \<open>Such a value below \<open>2^1024\<close> is a binary64 number: rounding returns it.\<close>

lemma round64_exact:
  assumes m: "0 < m" "m \<le> 2 ^ 53" and k: "- 1074 \<le> k"
    and v: "v = of_int m * 2 powi k" and fin: "v < 2 powi 1024"
    and y: "y = v \<or> y = - v"
  shows "round64 y = Fin y"
proof -
  have vpos: "0 < v" using m by (simp add: v)
  define q' where "q' = quantum v"
  from quantum_grid [OF m k] obtain n
    where n: "v = of_int n * q'" by (auto simp: v q'_def)
  have qv: "0 < q'" by (simp add: q'_def quantum_def)
  have qy: "quantum y = q'" using y by (auto simp: quantum_def q'_def)
  have ay: "\<bar>y\<bar> = v" using vpos y by auto
  have "v / q' = of_int n" using qv by (simp add: n)
  then have F1: "of_int (roundTiesToEven (\<bar>y\<bar> / quantum y)) * quantum y = v"
    by (simp add: roundTiesToEven_of_int qy ay n)
  have F2: "y \<noteq> 0" and F3: "(if y < 0 then - v else v) = y"
    using vpos y by auto
  have F4: "\<not> 2 powi 1024 \<le> v" using fin by simp
  show ?thesis unfolding round64_def Let_def F1
    by (simp only: F2 F3 F4 if_False)
qed

text \<open>Rounding is idempotent: its finite results are binary64 numbers.\<close>

lemma round64_idem:
  assumes "round64 r = Fin y"
  shows "round64 y = Fin y"
proof (cases "r = 0")
  case True
  then show ?thesis using assms by (auto simp: round64_def)
next
  case False
  define a where "a = \<bar>r\<bar>"
  define k where "k = max (binexp a) (- 1022) - 52"
  define m where "m = roundTiesToEven (a / 2 powi k)"
  define v :: rat where "v = of_int m * 2 powi k"
  have apos: "0 < a" using False by (simp add: a_def)
  have q: "quantum r = 2 powi k" by (simp add: quantum_def k_def a_def)
  have fin: "\<not> 2 powi 1024 \<le> v" and y: "y = (if r < 0 then - v else v)"
    using assms False
    by (auto simp: round64_def Let_def q v_def m_def a_def split: if_splits)
  have k: "- 1074 \<le> k" by (simp add: k_def)
  have "a < 2 powi (binexp a + 1)" using binexp_bounds [OF apos] by simp
  also have "\<dots> \<le> 2 powi (k + 53)"
    by (intro power_int_increasing) (auto simp: k_def)
  finally have "a / 2 powi k < 2 powi 53"
    by (simp add: power_int_add field_simps)
  then have "a / 2 powi k \<le> of_int (2 ^ 53)" by simp
  then have m_le: "m \<le> 2 ^ 53" unfolding m_def by (rule roundTiesToEven_le)
  have m_ge: "0 \<le> m" unfolding m_def
    by (rule roundTiesToEven_nonneg) (use apos in simp)
  show ?thesis
  proof (cases "m = 0")
    case True
    then show ?thesis by (simp add: y v_def round64_def)
  next
    case False
    then have mpos: "0 < m" using m_ge by simp
    show ?thesis
      by (rule round64_exact [OF mpos m_le k v_def]) (use fin y in auto)
  qed
qed

lemma round64_0 [simp]: "round64 0 = Fin 0"
  by (simp add: round64_def)

lemma is_double_round64 [simp]: "is_double (round64 r)"
  by (cases "round64 r") (simp_all add: round64_idem)

lemma is_double_fadd [simp]: "is_double (fadd a b)"
  by (cases a; cases b) simp_all

lemma is_double_fmul [simp]: "is_double (fmul a b)"
  by (cases a; cases b) simp_all

lemma fadd_zero_right: "is_double a \<Longrightarrow> fadd a (Fin 0) = a"
  by (cases a) simp_all


section \<open>Printing and reading back two decimals\<close>

lemma digit_cases: "d < 10 \<Longrightarrow> d \<in> {0, 1, 2, 3, 4, 5, 6, 7, 8, 9::nat}"
  by auto

lemma digit_char_is_digit: "d < 10 \<Longrightarrow> is_digit (digit_char d)"
  using digit_cases [of d] by (auto simp: digit_char_def is_digit_def)

lemma digit_val_digit_char: "d < 10 \<Longrightarrow> digit_val (digit_char d) = d"
  using digit_cases [of d] by (auto simp: digit_char_def digit_val_def)

lemma is_digit_not_other:
  "is_digit c \<Longrightarrow> \<not> is_space c \<and> c \<noteq> CHR ''-'' \<and> c \<noteq> CHR ''+'' \<and> c \<noteq> CHR ''I''"
  by (auto simp: is_digit_def is_space_def)

lemma not_is_digit_point: "\<not> is_digit (CHR ''.'')"
  by (simp add: is_digit_def)

lemma decimal_small: "n < 10 \<Longrightarrow> decimal n = [digit_char n]"
  by (subst decimal.simps) simp

lemma decimal_large: "\<not> n < 10 \<Longrightarrow> decimal n = decimal (n div 10) @ [digit_char (n mod 10)]"
  by (subst decimal.simps) simp

lemma decimal_digits: "c \<in> set (decimal n) \<Longrightarrow> is_digit c"
proof (induction n arbitrary: c rule: decimal.induct)
  case (1 n)
  show ?case
  proof (cases "n < 10")
    case True
    with "1.prems" show ?thesis by (simp add: decimal_small digit_char_is_digit)
  next
    case False
    with "1.prems" have "c \<in> set (decimal (n div 10)) \<or> c = digit_char (n mod 10)"
      by (auto simp: decimal_large)
    then show ?thesis using "1.IH" [OF False] by (auto simp: digit_char_is_digit)
  qed
qed

lemma decimal_nonempty: "decimal n \<noteq> []"
  by (cases "n < 10") (simp_all add: decimal_small decimal_large)

lemma digits_val_snoc: "digits_val (ds @ [c]) = 10 * digits_val ds + digit_val c"
  by (simp add: digits_val_def)

lemma digits_val_decimal: "digits_val (decimal n) = n"
proof (induction n rule: decimal.induct)
  case (1 n)
  show ?case
  proof (cases "n < 10")
    case True
    then show ?thesis by (simp add: decimal_small digits_val_def digit_val_digit_char)
  next
    case False
    then show ?thesis using "1.IH" [OF False]
      by (simp add: decimal_large digits_val_snoc digit_val_digit_char)
  qed
qed

lemma digits_val_zeros: "digits_val (replicate k (CHR ''0'') @ ds) = digits_val ds"
  by (induction k) (simp_all add: digits_val_def digit_val_def)

lemma parseLiteral_fixed:
  assumes ip: "ip \<noteq> []" and dig: "\<And>c. c \<in> set (ip @ fp) \<Longrightarrow> is_digit c"
  shows "parseLiteral (ip @ ''.'' @ fp) = round64 (of_nat (digits_val (ip @ fp)) / 10 ^ length fp)"
    and "parseLiteral (''-'' @ ip @ ''.'' @ fp) =
           round64 (- (of_nat (digits_val (ip @ fp)) / 10 ^ length fp))"
proof -
  define u where "u = ip @ CHR ''.'' # fp"
  obtain c cs where c: "ip = c # cs" using ip by (cases ip) auto
  have cd: "is_digit c" using dig c by simp
  note cn = is_digit_not_other [OF cd]
  have u: "u = c # cs @ CHR ''.'' # fp" by (simp add: u_def c)
  have u1: "dropWhile is_space u = u" using cn by (simp add: u)
  have u2: "u \<noteq> []" by (simp add: u)
  have u3: "hd u \<noteq> CHR ''-''" "hd u \<noteq> CHR ''+''" using cn by (simp_all add: u)
  have u4: "take 8 u \<noteq> ''Infinity''" using cn by (simp add: u)
  have u5: "takeWhile is_digit u = ip"
    unfolding u_def using dig by (simp add: not_is_digit_point)
  have u6: "dropWhile is_digit u = CHR ''.'' # fp"
    unfolding u_def using dig by (simp add: not_is_digit_point)
  have tf: "takeWhile is_digit fp = fp" using dig by (simp add: takeWhile_eq_all_conv)
  have df: "dropWhile is_digit fp = []" using dig by simp
  have sp: "\<not> is_space (CHR ''-'')" by (simp add: is_space_def)
  have "parseLiteral u = round64 (of_nat (digits_val (ip @ fp)) / 10 ^ length fp)"
    unfolding parseLiteral_def Let_def
    by (simp add: u1 u2 u3 u4 u5 u6 tf df ip exponent_part_def)
  then show "parseLiteral (ip @ ''.'' @ fp) =
      round64 (of_nat (digits_val (ip @ fp)) / 10 ^ length fp)"
    by (simp add: u_def)
  have "parseLiteral (CHR ''-'' # u) = round64 (- (of_nat (digits_val (ip @ fp)) / 10 ^ length fp))"
    unfolding parseLiteral_def Let_def
    by (simp add: sp u4 u5 u6 tf df ip exponent_part_def)
  then show "parseLiteral (''-'' @ ip @ ''.'' @ fp) =
      round64 (- (of_nat (digits_val (ip @ fp)) / 10 ^ length fp))"
    by (simp add: u_def)
qed

lemma toFixed_2_shape:
  assumes "\<bar>r\<bar> < 10 ^ 21"
  shows "\<exists>ip fp. toFixed (Fin r) 2 = Literal ((if r < 0 then ''-'' else []) @ ip @ ''.'' @ fp)
           \<and> ip \<noteq> [] \<and> length fp = 2 \<and> (\<forall>c \<in> set (ip @ fp). is_digit c)
           \<and> digits_val (ip @ fp) = nat (round (\<bar>r\<bar> * 100))"
proof -
  define n where "n = nat (round (\<bar>r\<bar> * 100))"
  define m where "m = (if length (decimal n) \<le> 2
     then replicate (3 - length (decimal n)) (CHR ''0'') @ decimal n else decimal n)"
  have len: "3 \<le> length m" by (auto simp: m_def)
  have is0: "is_digit (CHR ''0'')" by (simp add: is_digit_def)
  have dig: "\<forall>c \<in> set m. is_digit c"
    by (auto simp: m_def decimal_digits is0)
  have val: "digits_val m = n" by (simp add: m_def digits_val_zeros digits_val_decimal)
  have tf: "toFixed (Fin r) 2 =
      Literal ((if r < 0 then ''-'' else []) @ take (length m - 2) m @ ''.'' @ drop (length m - 2) m)"
    using assms by (simp add: toFixed_def Let_def n_def m_def)
  show ?thesis
    apply (rule exI [of _ "take (length m - 2) m"])
    apply (rule exI [of _ "drop (length m - 2) m"])
    using len dig val tf by (auto simp: n_def)
qed

lemma parseFloat_toFixed_2:
  "parseFloat (toFixed x 2) =
     (case x of Fin r \<Rightarrow> if \<bar>r\<bar> < 10 ^ 21 then round64 (round2 r) else x | _ \<Rightarrow> x)"
proof (cases x)
  case (Fin r)
  show ?thesis
  proof (cases "\<bar>r\<bar> < 10 ^ 21")
    case True
    define k where "k = round (\<bar>r\<bar> * 100)"
    from toFixed_2_shape [OF True] obtain ip fp where
      tf: "toFixed (Fin r) 2 = Literal ((if r < 0 then ''-'' else []) @ ip @ ''.'' @ fp)"
      and ip: "ip \<noteq> []" and fp: "length fp = 2"
      and dig: "\<forall>c \<in> set (ip @ fp). is_digit c"
      and val: "digits_val (ip @ fp) = nat k" unfolding k_def by blast
    have nn: "0 \<le> k" by (simp add: k_def round_def)
    have v: "(of_nat (digits_val (ip @ fp)) :: rat) / 10 ^ length fp = of_int k / 100"
      using nn by (simp add: val fp)
    have r2: "round2 r = (if r < 0 then - (of_int k / 100) else of_int k / 100)"
      by (auto simp: round2_def k_def sgn_if)
    from parseLiteral_fixed [OF ip] dig
    have p: "parseLiteral (ip @ ''.'' @ fp) = round64 (of_nat (digits_val (ip @ fp)) / 10 ^ length fp)"
      "parseLiteral (''-'' @ ip @ ''.'' @ fp) =
           round64 (- (of_nat (digits_val (ip @ fp)) / 10 ^ length fp))" by blast+
    have "parseFloat (toFixed (Fin r) 2) = round64 (round2 r)"
    proof (cases "r < 0")
      case neg: True
      have "parseFloat (toFixed (Fin r) 2) = parseLiteral (''-'' @ ip @ ''.'' @ fp)"
        using neg by (simp only: tf parseFloat.simps if_True)
      also have "\<dots> = round64 (- (of_int k / 100))" by (simp only: p(2) v)
      also have "\<dots> = round64 (round2 r)" using neg by (simp only: r2 if_True)
      finally show ?thesis .
    next
      case False
      have "parseFloat (toFixed (Fin r) 2) = parseLiteral (ip @ ''.'' @ fp)"
        using False by (simp only: tf parseFloat.simps if_False append_Nil)
      also have "\<dots> = round64 (of_int k / 100)" by (simp only: p(1) v)
      also have "\<dots> = round64 (round2 r)" using False by (simp only: r2 if_False)
      finally show ?thesis .
    qed
    then show ?thesis using True by (simp add: Fin)
  next
    case False
    then show ?thesis by (simp add: Fin toFixed_def Let_def)
  qed
qed (simp_all add: toFixed_def)

section \<open>The derived total\<close>

lemma floor_rat_numeral: "\<lfloor>numeral a / numeral b :: rat\<rfloor> = numeral a div numeral b"
  by (metis floor_divide_of_int_eq of_int_numeral)

lemmas round64_eval = roundTiesToEven_def Let_def floor_rat_numeral

lemmas toFixed_eval = toFixed_def round_def decimal_small decimal_large digit_char_def

lemmas parseLiteral_eval = parseLiteral_def is_space_def is_digit_def digits_val_def
  digit_val_def exponent_part_def

lemma tax_factor_value: "tax_factor = Fin (5314247560297185 / 4503599627370496)"
  by (simp add: tax_factor_def round64_at [of _ 0] round64_eval)

lemma subtotal_append:
  "subtotal (xs @ ys) = foldl (\<lambda>sum product. fadd sum (line_amount product)) (subtotal xs) ys"
  by (simp add: subtotal_def)

lemma is_double_subtotal: "is_double (subtotal ps)"
  by (induction ps rule: rev_induct) (simp_all add: subtotal_def)

lemma line_amount_missing:
  "quantity p = Undefined \<or> price p = Undefined \<Longrightarrow> line_amount p = Fin 0"
  by (cases "ToNumber (quantity p)"; cases "ToNumber (price p)")
     (auto simp: line_amount_def or_else_def)

lemma derived_total_Nil: "derived_total [] = Fin 0"
  by (simp add: derived_total_def totalWithTax_def subtotal_def tax_factor_value
      toFixed_eval parseLiteral_eval Let_def)

lemma derived_total_example:
  "derived_total
     [\<lparr>product_id = ''A'', quantity = Num (Fin 2), price = Num (Fin 10)\<rparr>,
      \<lparr>product_id = ''B'', quantity = Num (Fin 1), price = Num (Fin 5)\<rparr>] = Fin (59 / 2)"
  by (simp add: derived_total_def totalWithTax_def subtotal_def tax_factor_value
      line_amount_def or_else_def
      round64_at [of _ 4] round64_at [of _ 2] round64_eval
      toFixed_eval parseLiteral_eval)

lemma derived_total_quarter:
  "derived_total [\<lparr>product_id = ''A'', quantity = Num (Fin 1), price = Num (Fin (1 / 4))\<rparr>]
     = Fin (5224175567749775 / 18014398509481984)"
  by (simp add: derived_total_def totalWithTax_def subtotal_def tax_factor_value
      line_amount_def or_else_def
      round64_at [of _ "- 2"] round64_eval
      toFixed_eval parseLiteral_eval)

lemma round64_three_tenths: "round64 (3 / 10) = Fin (5404319552844595 / 18014398509481984)"
  by (simp add: round64_at [of _ "- 2"] round64_eval)

lemma round64_29_hundredths: "round64 (29 / 100) = Fin (5224175567749775 / 18014398509481984)"
  by (simp add: round64_at [of _ "- 2"] round64_eval)

lemma round64_quarter: "round64 (1 / 4) = Fin (1 / 4)"
  by (simp add: round64_at [of _ "- 2"] round64_eval)

lemma round64_one: "round64 1 = Fin 1"
  by (simp add: round64_at [of _ 0] round64_eval)

lemma spec_total_quarter:
  "spec_total [\<lparr>product_id = ''A'', quantity = Num (Fin 1), price = Num (Fin (1 / 4))\<rparr>] = 3 / 10"
  by (simp add: spec_total_def round2_def round_def floor_rat_numeral)

text \<open>
  C1, as stated, at one unit of a product priced 0.25; quantity and price are binary64
  numbers. The exact amount with tax is \<open>0.25 \<times> 1.18 = 0.295\<close>, whose two-decimal rounding
  is \<open>0.30\<close>. The binary64 product of \<open>0.25\<close> and the literal \<open>1.18\<close> lies below \<open>0.295\<close>,
  and the form stores the binary64 number nearest to \<open>0.29\<close>: neither \<open>0.30\<close> nor the
  binary64 number nearest to it.
\<close>

theorem derived_total_counterexample:
  "is_double (Fin 1) \<and> is_double (Fin (1 / 4))
   \<and> spec_total [\<lparr>product_id = ''A'', quantity = Num (Fin 1), price = Num (Fin (1 / 4))\<rparr>]
       = 3 / 10
   \<and> totalWithTax [\<lparr>product_id = ''A'', quantity = Num (Fin 1), price = Num (Fin (1 / 4))\<rparr>]
       = Fin (5314247560297185 / 18014398509481984)
   \<and> derived_total [\<lparr>product_id = ''A'', quantity = Num (Fin 1), price = Num (Fin (1 / 4))\<rparr>]
       = round64 (29 / 100)
   \<and> derived_total [\<lparr>product_id = ''A'', quantity = Num (Fin 1), price = Num (Fin (1 / 4))\<rparr>]
       \<noteq> round64
           (spec_total [\<lparr>product_id = ''A'', quantity = Num (Fin 1), price = Num (Fin (1 / 4))\<rparr>])
   \<and> derived_total [\<lparr>product_id = ''A'', quantity = Num (Fin 1), price = Num (Fin (1 / 4))\<rparr>]
       \<noteq> Fin
           (spec_total [\<lparr>product_id = ''A'', quantity = Num (Fin 1), price = Num (Fin (1 / 4))\<rparr>])"
  by (simp add: derived_total_quarter spec_total_quarter round64_three_tenths
      round64_29_hundredths round64_quarter round64_one
      totalWithTax_def subtotal_def line_amount_def or_else_def tax_factor_value
      round64_at [of _ "- 2"] round64_eval)

text \<open>A binary64 number of magnitude \<open>2^53\<close> and more is an integer.\<close>

lemma big_double_integer:
  assumes d: "round64 x = Fin x" and big: "2 ^ 53 \<le> \<bar>x\<bar>"
  shows "\<exists>n::int. x = of_int n"
proof -
  define a where "a = \<bar>x\<bar>"
  define e where "e = binexp a"
  have apos: "0 < a" using big by (simp add: a_def)
  have x0: "x \<noteq> 0" using apos by (auto simp: a_def)
  have "a < 2 powi (e + 1)" using binexp_bounds [OF apos] by (simp add: e_def)
  moreover have "(2::rat) powi 53 \<le> a" using big by (simp add: a_def)
  ultimately have lt: "(2::rat) powi 53 < 2 powi (e + 1)" by simp
  have e53: "53 \<le> e"
  proof (rule ccontr)
    assume "\<not> 53 \<le> e"
    then have "(2::rat) powi (e + 1) \<le> 2 powi 53"
      by (intro power_int_increasing) auto
    then show False using lt by simp
  qed
  have q: "quantum x = of_int (2 ^ nat (e - 52))"
    using e53 by (simp add: quantum_def e_def a_def power_int_def)
  define m where "m = roundTiesToEven (\<bar>x\<bar> / quantum x)"
  have "x = (if x < 0 then - (of_int m * quantum x) else of_int m * quantum x)"
    using d x0 by (auto simp: round64_def Let_def m_def split: if_splits)
  then have "x = of_int (if x < 0 then - (m * 2 ^ nat (e - 52)) else m * 2 ^ nat (e - 52))"
    unfolding q by (simp split: if_splits)
  then show ?thesis by blast
qed

lemma round2_of_int: "round2 (of_int n) = of_int n"
proof -
  have "\<bar>of_int n :: rat\<bar> * 100 = of_int (\<bar>n\<bar> * 100)" by simp
  then have "round (\<bar>of_int n :: rat\<bar> * 100) = \<bar>n\<bar> * 100"
    by (simp only: round_of_int)
  then show ?thesis by (simp add: round2_def sgn_if)
qed

text \<open>
  Printing a binary64 number with two decimals and reading it back gives the binary64
  number nearest to its two-decimal rounding.
\<close>

lemma parseFloat_toFixed_2_double:
  assumes "is_double x"
  shows "parseFloat (toFixed x 2) = (case x of Fin r \<Rightarrow> round64 (round2 r) | y \<Rightarrow> y)"
proof (cases x)
  case (Fin r)
  show ?thesis
  proof (cases "\<bar>r\<bar> < 10 ^ 21")
    case True
    then show ?thesis by (simp add: parseFloat_toFixed_2 Fin)
  next
    case False
    have d: "round64 r = Fin r" using assms by (simp add: Fin)
    have "(2::rat) ^ 53 \<le> 10 ^ 21" by simp
    then have "2 ^ 53 \<le> \<bar>r\<bar>" using False by linarith
    from big_double_integer [OF d this] obtain n where "r = of_int n" by blast
    then have "round2 r = r" by (simp add: round2_of_int)
    then show ?thesis using False d by (simp add: parseFloat_toFixed_2 Fin)
  qed
qed (simp_all add: parseFloat_toFixed_2)

text \<open>
  C1, amended: for every line-item collection the total written into the draft is the
  two-decimal rounding of the subtotal times \<open>1.18\<close> in binary64 arithmetic. The subtotal
  is the left-to-right binary64 sum of the binary64 products of quantity and price, a
  product that is \<open>NaN\<close> or zero counting as 0; it is multiplied in binary64 by the binary64
  number nearest to \<open>1.18\<close>; and the total is the binary64 number nearest to the
  two-decimal rounding of that product (the product itself when it is not finite). The
  collection of 2 at 10 and 1 at 5 gives 29.5, and the empty collection gives 0.
\<close>

theorem derived_total_formula:
  "totalPrice (formik_values (totalPrice_effect st)) = derived_total (products (formik_values st))
   \<and> derived_total ps =
       (case fmul (subtotal ps) (round64 (118 / 100)) of
          Fin x \<Rightarrow> round64 (round2 x)
        | y \<Rightarrow> y)
   \<and> subtotal ps =
       foldl (\<lambda>sum product.
           fadd sum
             (or_else (fmul (ToNumber (quantity product)) (ToNumber (price product))) (Fin 0)))
         (Fin 0) ps
   \<and> derived_total
       [\<lparr>product_id = ''A'', quantity = Num (Fin 2), price = Num (Fin 10)\<rparr>,
        \<lparr>product_id = ''B'', quantity = Num (Fin 1), price = Num (Fin 5)\<rparr>] = Fin (59 / 2)
   \<and> derived_total [] = Fin 0"
proof -
  have "is_double (totalWithTax ps)" by (simp add: totalWithTax_def)
  then have "derived_total ps =
      (case totalWithTax ps of Fin x \<Rightarrow> round64 (round2 x) | y \<Rightarrow> y)"
    unfolding derived_total_def by (rule parseFloat_toFixed_2_double)
  moreover have "subtotal ps =
       foldl (\<lambda>sum product.
           fadd sum
             (or_else (fmul (ToNumber (quantity product)) (ToNumber (price product))) (Fin 0)))
         (Fin 0) ps"
    unfolding subtotal_def line_amount_def ..
  ultimately show ?thesis
    by (simp add: totalPrice_effect_def totalWithTax_def tax_factor_def
        derived_total_example derived_total_Nil)
qed

lemma subtotal_skip:
  assumes "line_amount p = Fin 0"
  shows "subtotal (xs @ p # ys) = subtotal (xs @ ys)"
proof -
  have "subtotal (xs @ [p]) = subtotal xs"
    using assms by (simp add: subtotal_append fadd_zero_right is_double_subtotal)
  then have "subtotal ((xs @ [p]) @ ys) = subtotal (xs @ ys)"
    by (simp only: subtotal_append)
  then show ?thesis by simp
qed

text \<open>
  C2: a line item whose quantity or price is \<open>undefined\<close> adds 0 to the subtotal: the
  subtotal and the total of a collection are those of the collection without the item,
  wherever the item stands, and the collection of that item alone has total 0.
\<close>

theorem missing_field_contributes_zero:
  assumes "quantity p = Undefined \<or> price p = Undefined"
  shows "line_amount p = Fin 0
    \<and> subtotal (xs @ p # ys) = subtotal (xs @ ys)
    \<and> derived_total (xs @ p # ys) = derived_total (xs @ ys)
    \<and> derived_total [p] = Fin 0"
proof -
  have z: "line_amount p = Fin 0" using assms by (rule line_amount_missing)
  have s: "\<And>xs ys. subtotal (xs @ p # ys) = subtotal (xs @ ys)"
    by (rule subtotal_skip [OF z])
  have d: "\<And>xs ys. derived_total (xs @ p # ys) = derived_total (xs @ ys)"
    by (simp add: derived_total_def totalWithTax_def s)
  have "derived_total [p] = derived_total []" using d [of "[]" "[]"] by simp
  then show ?thesis using z s d by (simp add: derived_total_Nil)
qed

theorem missing_field_contributes_zero_witness:
  "(quantity \<lparr>product_id = ''A'', quantity = Num (Fin 3), price = Undefined\<rparr> = Undefined
      \<or> price \<lparr>product_id = ''A'', quantity = Num (Fin 3), price = Undefined\<rparr> = Undefined)
   \<and> line_amount \<lparr>product_id = ''A'', quantity = Num (Fin 3), price = Undefined\<rparr> = Fin 0
   \<and> derived_total [\<lparr>product_id = ''A'', quantity = Num (Fin 3), price = Undefined\<rparr>] = Fin 0"
  using missing_field_contributes_zero
    [of "\<lparr>product_id = ''A'', quantity = Num (Fin 3), price = Undefined\<rparr>" "[]" "[]"]
  by (simp add: derived_total_Nil)

text \<open>
  C3: the recomputation is idempotent and depends on the line items alone: running the
  effect a second time changes nothing, the total it stores is a function of the
  collection, and it leaves the collection as it is.
\<close>

theorem totalPrice_effect_idempotent:
  "totalPrice_effect (totalPrice_effect st) = totalPrice_effect st
   \<and> totalPrice (formik_values (totalPrice_effect st)) = derived_total (products (formik_values st))
   \<and> products (formik_values (totalPrice_effect st)) = products (formik_values st)"
  by (simp add: totalPrice_effect_def)


section \<open>The selected supplier\<close>

lemma find_Some_in: "find P xs = Some x \<Longrightarrow> x \<in> set xs \<and> P x"
  by (induction xs) (auto split: if_splits)

lemma find_None_none: "find P xs = None \<Longrightarrow> \<forall>x \<in> set xs. \<not> P x"
  by (induction xs) (auto split: if_splits)

text \<open>
  The effect selects a cached supplier whose id is the selected identifier, and \<open>null\<close>
  exactly when the cache holds none (so always on an empty cache); it leaves the cache as
  it is. While \<open>null\<close> is selected, each of the five display fields (address, email, rnc,
  phone number, supplier type) is given \<open>undefined\<close> as its value.
\<close>

lemma selectedSupplier_effect_resolves:
  "(case selectedSupplier (selectedSupplier_effect st) of
      Some s \<Rightarrow> s \<in> set (suppliers st) \<and> supplier_id s = origin_id (origin (formik_values st))
    | None \<Rightarrow> \<forall>s \<in> set (suppliers st). supplier_id s \<noteq> origin_id (origin (formik_values st)))
   \<and> (suppliers st = [] \<longrightarrow> selectedSupplier (selectedSupplier_effect st) = None)
   \<and> suppliers (selectedSupplier_effect st) = suppliers st
   \<and> (selectedSupplier (selectedSupplier_effect st) = None \<longrightarrow>
        supplier_fields (selectedSupplier_effect st) = no_supplier_fields)"
proof -
  let ?P = "\<lambda>s. supplier_id s = origin_id (origin (formik_values st))"
  have sel: "selectedSupplier (selectedSupplier_effect st) = find ?P (suppliers st)"
    by (simp add: selectedSupplier_effect_def)
  have 1: "(case find ?P (suppliers st) of
      Some s \<Rightarrow> s \<in> set (suppliers st) \<and> ?P s
    | None \<Rightarrow> \<forall>s \<in> set (suppliers st). \<not> ?P s)"
    using find_Some_in [of ?P "suppliers st"] find_None_none [of ?P "suppliers st"]
    by (cases "find ?P (suppliers st)") auto
  have 2: "suppliers st = [] \<longrightarrow> find ?P (suppliers st) = None" by simp
  have 3: "suppliers (selectedSupplier_effect st) = suppliers st"
    by (simp add: selectedSupplier_effect_def)
  have 4: "selectedSupplier (selectedSupplier_effect st) = None \<longrightarrow>
        supplier_fields (selectedSupplier_effect st) = no_supplier_fields"
    by (simp add: supplier_fields_def no_supplier_fields_def)
  show ?thesis unfolding sel using 1 2 3 4 unfolding sel by blast
qed

text \<open>
  C4 at a cache of two suppliers, after the first supplier was chosen in the selector and
  then the empty option. The resolver has selected \<open>null\<close> and the five display fields
  are given \<open>undefined\<close>; the inputs, which showed the first supplier's data, still show
  them.
\<close>

theorem deselected_supplier_still_shown:
  "selectedSupplier S1_chosen = Some supplier_S1
   \<and> render_supplier_inputs (render_supplier_inputs inputs_mounted suppliers_loaded) S1_chosen
       = \<lparr>shownAddress = ''Calle 1'', shownEmail = ''alfa@example.com'', shownRNC = ''101'',
          shownPhoneNumber = ''8095550001'', shownType = ''Equipos''\<rparr>
   \<and> origin_id (origin (formik_values none_chosen)) = []
   \<and> selectedSupplier none_chosen = None
   \<and> supplier_fields none_chosen = no_supplier_fields
   \<and> render_supplier_inputs
        (render_supplier_inputs (render_supplier_inputs inputs_mounted suppliers_loaded) S1_chosen)
        none_chosen
       = \<lparr>shownAddress = ''Calle 1'', shownEmail = ''alfa@example.com'', shownRNC = ''101'',
          shownPhoneNumber = ''8095550001'', shownType = ''Equipos''\<rparr>"
  by (simp add: none_chosen_def S1_chosen_def suppliers_loaded_def
      selectedSupplier_effect_def handleSupplierChange_def setFieldValue_origin_id_def
      fetchSuppliers_def IncomeForm_init_def initialValues_def
      supplier_S1_def supplier_S2_def supplier_fields_def no_supplier_fields_def
      render_supplier_inputs_def input_shown_def inputs_mounted_def)

section \<open>Validation of the identifier\<close>

text \<open>
  C5: the uniqueness test of the identifier passes only for a non-empty identifier that the
  backend answers not to exist. For a non-empty identifier the field carries the
  duplicate-id error both when the backend answers that it exists and when the request
  fails; an empty or missing identifier is invalid too. A field with an error blocks
  submission.
\<close>

theorem unique_id_fail_closed:
  "(unique_id_test income_id_exists v
      \<longleftrightarrow> (\<exists>s. v = Some s \<and> s \<noteq> [] \<and> income_id_exists s = Resolved False))
   \<and> (validate_id income_id_exists v = None
      \<longleftrightarrow> (\<exists>s. v = Some s \<and> s \<noteq> [] \<and> income_id_exists s = Resolved False))
   \<and> (s \<noteq> [] \<and> (income_id_exists s = Resolved True \<or> income_id_exists s = Rejected)
      \<longrightarrow> validate_id income_id_exists (Some s) = Some unique_id_message)
   \<and> validate_id income_id_exists (Some []) \<noteq> None
   \<and> validate_id income_id_exists None \<noteq> None"
  by (auto simp: unique_id_test_def validate_id_def required_test_def
      split: option.splits response.splits)

theorem unique_id_fail_closed_witness:
  "validate_id backend_example (Some ''IN-1'') = Some unique_id_message
   \<and> validate_id backend_example (Some ''IN-2'') = Some unique_id_message
   \<and> validate_id backend_example (Some ''IN-3'') = None
   \<and> unique_id_test backend_example (Some ''IN-3'')
   \<and> \<not> unique_id_test backend_example (Some ''IN-2'')"
  using unique_id_fail_closed [of backend_example "Some ''IN-1''" "''IN-1''"]
    unique_id_fail_closed [of backend_example "Some ''IN-2''" "''IN-2''"]
    unique_id_fail_closed [of backend_example "Some ''IN-3''" "''IN-3''"]
  by (simp add: backend_example_def)


section \<open>Creating a supplier from the income form\<close>

text \<open>
  C6, as stated. Over an empty cache with the overlay open, the create request succeeds
  with supplier \<open>S2\<close> and the re-fetch returns \<open>S1\<close> and \<open>S2\<close>: the cache gains two
  entries, so it is not the old cache with exactly the created supplier added. And when
  the overlay has been closed by its header button while the request was pending, the
  handler opens it again, on success and on failure.
\<close>

theorem handleCreateSupplier_counterexample:
  "createSupplier (modals overlay_open) \<and> suppliers overlay_open = []
   \<and> suppliers (handleCreateSupplier (Resolved supplier_S2)
        (Resolved [supplier_S1, supplier_S2]) overlay_open) = [supplier_S1, supplier_S2]
   \<and> suppliers (handleCreateSupplier (Resolved supplier_S2)
        (Resolved [supplier_S1, supplier_S2]) overlay_open) \<noteq> suppliers overlay_open @ [supplier_S2]
   \<and> \<not> createSupplier (modals (IncomeForm_init None))
   \<and> createSupplier (modals (handleCreateSupplier (Resolved supplier_S2)
        (Resolved [supplier_S1, supplier_S2]) (IncomeForm_init None)))
   \<and> createSupplier (modals (handleCreateSupplier Rejected
        (Resolved [supplier_S1, supplier_S2]) (IncomeForm_init None)))"
  by (simp add: overlay_open_def handleCreateSupplier_def fetchSuppliers_def handleError_def
      toggleModal_def setFieldValue_origin_id_def IncomeForm_init_def Let_def
      supplier_S1_def supplier_S2_def)

text \<open>
  C6, amended: in a form whose overlay is open, when the create request and the re-fetch
  of the suppliers both succeed, the cache is replaced by the list the re-fetch returns,
  the new supplier is stored as the selected supplier, \<open>origin.id\<close> is set to its id and
  the overlay closes, and the resolver, which then runs, selects from the new cache by the
  new id; when the create request fails, the overlay closes and the error alert is shown,
  and the cache, the selection and the draft are left as they were.
\<close>

theorem handleCreateSupplier_outcomes:
  assumes "createSupplier (modals st)"
  shows "suppliers (handleCreateSupplier (Resolved newSupplier) (Resolved list) st) = list
    \<and> selectedSupplier (handleCreateSupplier (Resolved newSupplier) (Resolved list) st)
      = Some newSupplier
    \<and> origin_id (origin (formik_values
        (handleCreateSupplier (Resolved newSupplier) (Resolved list) st)))
      = supplier_id newSupplier
    \<and> \<not> createSupplier (modals (handleCreateSupplier (Resolved newSupplier) (Resolved list) st))
    \<and> selectedSupplier
        (render_after st (resolved (Resolved newSupplier) \<and> resolved (Resolved list))
           (handleCreateSupplier (Resolved newSupplier) (Resolved list) st))
      = find (\<lambda>s. supplier_id s = supplier_id newSupplier) list
    \<and> \<not> createSupplier (modals (handleCreateSupplier Rejected fetched st))
    \<and> alertConfig (handleCreateSupplier Rejected fetched st)
      = \<lparr>visible = True, color = ''danger'', message = createSupplier_error\<rparr>
    \<and> suppliers (handleCreateSupplier Rejected fetched st) = suppliers st
    \<and> selectedSupplier (handleCreateSupplier Rejected fetched st) = selectedSupplier st
    \<and> formik_values (handleCreateSupplier Rejected fetched st) = formik_values st
    \<and> render_after st (resolved (Rejected :: SupplierData response) \<and> resolved fetched)
        (handleCreateSupplier Rejected fetched st)
      = handleCreateSupplier Rejected fetched st"
  using assms
  by (simp add: handleCreateSupplier_def fetchSuppliers_def handleError_def
      toggleModal_def setFieldValue_origin_id_def selectedSupplier_effect_def
      render_after_def Let_def)

theorem handleCreateSupplier_outcomes_witness:
  "createSupplier (modals overlay_open)
   \<and> suppliers (handleCreateSupplier (Resolved supplier_S2) (Resolved [supplier_S1, supplier_S2])
        overlay_open) = [supplier_S1, supplier_S2]
   \<and> selectedSupplier (handleCreateSupplier (Resolved supplier_S2)
        (Resolved [supplier_S1, supplier_S2]) overlay_open) = Some supplier_S2
   \<and> \<not> createSupplier (modals (handleCreateSupplier (Resolved supplier_S2)
        (Resolved [supplier_S1, supplier_S2]) overlay_open))
   \<and> selectedSupplier
        (render_after overlay_open True
           (handleCreateSupplier (Resolved supplier_S2) (Resolved [supplier_S1, supplier_S2])
              overlay_open)) = Some supplier_S2
   \<and> suppliers (handleCreateSupplier Rejected (Resolved [supplier_S1]) overlay_open) = []
   \<and> selectedSupplier (handleCreateSupplier Rejected (Resolved [supplier_S1]) overlay_open) = None"
proof -
  have h: "createSupplier (modals overlay_open)"
    by (simp add: overlay_open_def toggleModal_def IncomeForm_init_def)
  show ?thesis
    using h handleCreateSupplier_outcomes [OF h, of supplier_S2 "[supplier_S1, supplier_S2]"
        "Resolved [supplier_S1]"]
    by (simp add: overlay_open_def toggleModal_def IncomeForm_init_def
        supplier_S1_def supplier_S2_def)
qed

section \<open>Submission\<close>

text \<open>
  C7: when the caller's \<open>onSubmit\<close> rejects, the form is no longer submitting, its submit
  button is enabled again, and every value of the draft is the one it had before the
  submission; this holds for the income form and for the supplier form.
\<close>

theorem failed_submission_keeps_draft:
  "formik_values (IncomeForm_onSubmit_settle Rejected (IncomeForm_onSubmit_begin st))
      = formik_values st
   \<and> \<not> isSubmitting (IncomeForm_onSubmit_settle Rejected (IncomeForm_onSubmit_begin st))
   \<and> \<not> IncomeForm_submit_disabled
        (IncomeForm_onSubmit_settle Rejected (IncomeForm_onSubmit_begin st))
   \<and> supplier_values (SupplierForm_onSubmit_settle Rejected (SupplierForm_onSubmit_begin sf))
      = supplier_values sf
   \<and> \<not> supplier_isSubmitting
        (SupplierForm_onSubmit_settle Rejected (SupplierForm_onSubmit_begin sf))
   \<and> \<not> SupplierForm_submit_disabled
        (SupplierForm_onSubmit_settle Rejected (SupplierForm_onSubmit_begin sf))"
  by (simp add: IncomeForm_onSubmit_settle_def IncomeForm_onSubmit_begin_def
      IncomeForm_submit_disabled_def SupplierForm_onSubmit_settle_def
      SupplierForm_onSubmit_begin_def SupplierForm_submit_disabled_def Let_def)

text \<open>
  C8 at a rejected submission. The supplier form shows its error alert and starts the
  timer of 5000 ms that hides it. The income form only writes to the console: whatever
  its draft, its alert and its timers are as they were, so from a form that shows no
  alert none is shown and no timer is started.
\<close>

theorem IncomeForm_failure_not_notified:
  "alertConfig (IncomeForm_onSubmit_settle Rejected (IncomeForm_onSubmit_begin st))
      = alertConfig st
   \<and> timers (IncomeForm_onSubmit_settle Rejected (IncomeForm_onSubmit_begin st)) = timers st
   \<and> showErrorAlert (SupplierForm_onSubmit_settle Rejected
      (SupplierForm_onSubmit_begin (SupplierForm_init None)))
   \<and> supplier_timers (SupplierForm_onSubmit_settle Rejected
      (SupplierForm_onSubmit_begin (SupplierForm_init None))) = [(5000, False)]
   \<and> \<not> showErrorAlert (SupplierForm_timeout (SupplierForm_onSubmit_settle Rejected
      (SupplierForm_onSubmit_begin (SupplierForm_init None))))
   \<and> alertConfig (IncomeForm_onSubmit_settle Rejected
      (IncomeForm_onSubmit_begin (IncomeForm_init None)))
      = \<lparr>visible = False, color = [], message = []\<rparr>
   \<and> timers (IncomeForm_onSubmit_settle Rejected
      (IncomeForm_onSubmit_begin (IncomeForm_init None))) = []
   \<and> console (IncomeForm_onSubmit_settle Rejected
      (IncomeForm_onSubmit_begin (IncomeForm_init None))) = [submit_error]"
  by (simp add: IncomeForm_onSubmit_settle_def IncomeForm_onSubmit_begin_def
      IncomeForm_init_def SupplierForm_onSubmit_settle_def SupplierForm_onSubmit_begin_def
      SupplierForm_init_def SupplierForm_timeout_def Let_def)

lemma isSubmitting_totalPrice_effect [simp]:
  "isSubmitting (totalPrice_effect st) = isSubmitting st"
  by (simp add: totalPrice_effect_def)

lemma isSubmitting_handleProductSelect [simp]:
  "isSubmitting (handleProductSelect ps st) = isSubmitting st"
  by (simp add: handleProductSelect_def)

lemma isSubmitting_selectedSupplier_effect [simp]:
  "isSubmitting (selectedSupplier_effect st) = isSubmitting st"
  by (simp add: selectedSupplier_effect_def)

lemma isSubmitting_handleSupplierChange [simp]:
  "isSubmitting (handleSupplierChange i st) = isSubmitting st"
  by (simp add: handleSupplierChange_def setFieldValue_origin_id_def)

lemma isSubmitting_fetchSuppliers [simp]:
  "isSubmitting (fetchSuppliers c fetched st) = isSubmitting st"
  by (cases fetched) (simp_all add: fetchSuppliers_def handleError_def)

lemma isSubmitting_toggleModal [simp]:
  "isSubmitting (toggleModal m b st) = isSubmitting st"
  by (cases m) (simp_all add: toggleModal_def)

lemma isSubmitting_handleCreateSupplier [simp]:
  "isSubmitting (handleCreateSupplier created fetched st) = isSubmitting st"
  by (cases created)
     (simp_all add: handleCreateSupplier_def Let_def handleError_def
        setFieldValue_origin_id_def)

lemma isSubmitting_render_after [simp]:
  "isSubmitting (render_after before b st) = isSubmitting st"
  by (simp add: render_after_def)

lemma isSubmitting_IncomeForm_timeout [simp]:
  "isSubmitting (IncomeForm_timeout st) = isSubmitting st"
  by (simp add: IncomeForm_timeout_def split: list.splits)

lemma IncomeForm_run_invariant:
  "IncomeForm_run st n \<Longrightarrow> n \<le> 1 \<and> (0 < n \<longrightarrow> isSubmitting st)"
proof (induction rule: IncomeForm_run.induct)
  case (mount initialData)
  then show ?case by simp
next
  case (submit st n)
  then show ?case
    by (auto simp: IncomeForm_submit_disabled_def IncomeForm_onSubmit_begin_def)
next
  case (settle st n r)
  then show ?case by simp
qed simp_all

lemma SupplierForm_run_invariant:
  "SupplierForm_run st n \<Longrightarrow> n \<le> 1 \<and> (0 < n \<longrightarrow> supplier_isSubmitting st)"
proof (induction rule: SupplierForm_run.induct)
  case (supplier_submit st n)
  then show ?case
    by (auto simp: SupplierForm_submit_disabled_def SupplierForm_onSubmit_begin_def)
next
  case (supplier_timeout st n)
  then show ?case
    by (auto simp: SupplierForm_timeout_def split: list.splits)
qed simp_all

text \<open>
  C9: in every state a form instance can reach, at most one call of the caller's
  \<open>onSubmit\<close> has not settled, and while one has not, the form is submitting and its
  submit button is disabled; this holds for the income form and for the supplier form.
\<close>

theorem one_submission_in_flight:
  "(IncomeForm_run st n \<longrightarrow>
      n \<le> 1 \<and> (0 < n \<longrightarrow> isSubmitting st \<and> IncomeForm_submit_disabled st))
   \<and> (SupplierForm_run sf k \<longrightarrow>
      k \<le> 1 \<and> (0 < k \<longrightarrow> supplier_isSubmitting sf \<and> SupplierForm_submit_disabled sf))"
  using IncomeForm_run_invariant [of st n] SupplierForm_run_invariant [of sf k]
  by (auto simp: IncomeForm_submit_disabled_def SupplierForm_submit_disabled_def)

theorem one_submission_in_flight_witness:
  "IncomeForm_run (IncomeForm_onSubmit_begin (IncomeForm_init None)) (Suc 0)
   \<and> IncomeForm_submit_disabled (IncomeForm_onSubmit_begin (IncomeForm_init None))
   \<and> SupplierForm_run (SupplierForm_onSubmit_begin (SupplierForm_init None)) (Suc 0)
   \<and> SupplierForm_submit_disabled (SupplierForm_onSubmit_begin (SupplierForm_init None))"
proof -
  have a: "IncomeForm_run (IncomeForm_onSubmit_begin (IncomeForm_init None)) (Suc 0)"
    by (rule IncomeForm_run.submit [OF IncomeForm_run.mount])
       (simp add: IncomeForm_submit_disabled_def IncomeForm_init_def)
  have b: "SupplierForm_run (SupplierForm_onSubmit_begin (SupplierForm_init None)) (Suc 0)"
    by (rule SupplierForm_run.supplier_submit [OF SupplierForm_run.supplier_mount])
       (simp add: SupplierForm_submit_disabled_def SupplierForm_init_def)
  show ?thesis
    using a b
      one_submission_in_flight [of "IncomeForm_onSubmit_begin (IncomeForm_init None)" "Suc 0"
        "SupplierForm_onSubmit_begin (SupplierForm_init None)" "Suc 0"]
    by simp
qed

section \<open>The product catalog\<close>

text \<open>
  C10: for a row whose status is not \<open>true\<close>, the update and the delete button are
  disabled and the details button is not; a click on the update or the delete button
  changes nothing, and a click on the details button selects the row and toggles the
  details modal.
\<close>

theorem inactive_row_actions:
  assumes "row_status row \<noteq> JBool True"
  shows "action_buttons row =
      [\<lparr>opens = Details, disabled = False\<rparr>,
       \<lparr>opens = Update, disabled = True\<rparr>,
       \<lparr>opens = Delete, disabled = True\<rparr>]
    \<and> click (action_buttons row ! 0) row st = handleClicModal Details row st
    \<and> click (action_buttons row ! 1) row st = st
    \<and> click (action_buttons row ! 2) row st = st"
  using assms by (simp add: action_buttons_def click_def)

theorem inactive_row_actions_witness:
  "row_status inactive_row \<noteq> JBool True
   \<and> map disabled (action_buttons inactive_row) = [False, True, True]
   \<and> click (action_buttons inactive_row ! 2) inactive_row catalog_closed = catalog_closed
   \<and> modal_details (catalog_modals
        (click (action_buttons inactive_row ! 0) inactive_row catalog_closed))"
proof -
  have h: "row_status inactive_row \<noteq> JBool True" by (simp add: inactive_row_def)
  show ?thesis
    using h inactive_row_actions [OF h, of catalog_closed]
    by (simp add: handleClicModal_def catalog_toggleModal_def catalog_closed_def
        action_buttons_def click_def inactive_row_def)
qed

end
